theory Spec2Isabelle
  imports Complex_Main
begin

section \<open>The LineScan container of PhloxAR/linescan.py\<close>

text \<open>
  A \<^verbatim>\<open>LineScan\<close> is a Python list (the samples) that carries the attributes
  \<^verbatim>\<open>image\<close>, \<^verbatim>\<open>pt1\<close>, \<^verbatim>\<open>pt2\<close>, \<^verbatim>\<open>row\<close>, \<^verbatim>\<open>col\<close>, \<^verbatim>\<open>channel\<close> and \<^verbatim>\<open>point_loc\<close>.
  The record below has one field per attribute; Python's \<^verbatim>\<open>None\<close> is \<open>None\<close> of an
  option type. The image is an opaque handle, so its type is a parameter. Python floats
  are read as real numbers (no rounding); the non-finite values that numpy produces
  instead of raising are kept apart in the type \<open>npfloat\<close>.
\<close>

datatype error = ValueError | IndexError | ZeroDivisionError | UnboundLocalError

type_synonym point = "int \<times> int"

record ('a, 'img) linescan =
  samples :: "'a list"
  image_attr :: "'img option"
  pt1 :: "point option"
  pt2 :: "point option"
  row :: "int option"
  col :: "int option"
  channel :: int
  point_loc :: "point list"

subsection \<open>The constructor\<close>

text \<open>
  The keyword arguments that the file ever passes to the constructor. A field is
  \<open>None\<close> when the keyword is not supplied and \<open>Some v\<close> when it is supplied with
  value \<open>v\<close>. \<^verbatim>\<open>threshold\<close> and \<^verbatim>\<open>invert\<close> pass a keyword spelled \<^verbatim>\<open>ptw\<close>.
\<close>

record 'img kwargs =
  kw_image :: "'img option option"
  kw_point_loc :: "point list option"
  kw_pt1 :: "point option option"
  kw_pt2 :: "point option option"
  kw_ptw :: "point option option"
  kw_channel :: "int option"

definition no_kwargs :: "'img kwargs" where
  "no_kwargs = \<lparr>kw_image = None, kw_point_loc = None, kw_pt1 = None, kw_pt2 = None,
     kw_ptw = None, kw_channel = None\<rparr>"

text \<open>
  The keys of \<^verbatim>\<open>self.__dict__\<close> when the loop over the keyword arguments runs: the six
  attributes assigned just before it. \<^verbatim>\<open>point_loc\<close> is a class attribute at that moment
  and is not among them.
\<close>

definition instance_keys :: "string list" where
  "instance_keys = [''image'', ''pt1'', ''pt2'', ''row'', ''col'', ''channel'']"

text \<open>
  One round of \<^verbatim>\<open>for key in kwargs: if key in self.__dict__: self.__dict__[key] = kwargs[key]\<close>
  for the keyword \<open>key\<close>: \<open>cur\<close> is the attribute's value before the loop.
\<close>

definition set_kw :: "string \<Rightarrow> 'v option \<Rightarrow> 'v \<Rightarrow> 'v" where
  "set_kw key supplied cur =
     (case supplied of
        None \<Rightarrow> cur
      | Some v \<Rightarrow> if key \<in> set instance_keys then v else cur)"

text \<open>\<^verbatim>\<open>zip(range(0, len(self)), range(0, len(self)))\<close>\<close>

definition identity_loc :: "nat \<Rightarrow> point list" where
  "identity_loc n = zip (map int [0..<n]) (map int [0..<n])"

text \<open>
  \<^verbatim>\<open>LineScan.__init__\<close>. After the loop, \<^verbatim>\<open>self.point_loc\<close> is read: the instance
  attribute if the loop has set one, the class attribute \<^verbatim>\<open>None\<close> otherwise (the third
  argument of \<open>set_kw\<close>), and \<^verbatim>\<open>None\<close> is replaced by the identity mapping.
  The keyword \<^verbatim>\<open>ptw\<close> names no attribute of the instance, so its round of the loop
  changes nothing.
\<close>

definition LineScan_init :: "'a list \<Rightarrow> 'img kwargs \<Rightarrow> ('a, 'img) linescan" where
  "LineScan_init args kw =
     \<lparr>samples = args,
      image_attr = set_kw ''image'' (kw_image kw) None,
      pt1 = set_kw ''pt1'' (kw_pt1 kw) None,
      pt2 = set_kw ''pt2'' (kw_pt2 kw) None,
      row = None,
      col = None,
      channel = set_kw ''channel'' (kw_channel kw) (- 1),
      point_loc =
        (case set_kw ''point_loc'' (map_option Some (kw_point_loc kw)) None of
           None \<Rightarrow> identity_loc (length args)
         | Some pl \<Rightarrow> pl)\<rparr>"


subsection \<open>Copying the attributes, slicing\<close>

text \<open>\<^verbatim>\<open>LineScan._update\<close>: every attribute of \<open>obj\<close> is copied onto \<open>self\<close>.\<close>

definition LineScan_update ::
  "('a, 'img) linescan \<Rightarrow> ('b, 'img) linescan \<Rightarrow> ('a, 'img) linescan" where
  "LineScan_update self obj =
     self\<lparr>image_attr := image_attr obj, pt1 := pt1 obj, pt2 := pt2 obj,
          row := row obj, col := col obj, channel := channel obj,
          point_loc := point_loc obj\<rparr>"

text \<open>
  A bound of a Python slice over a list of length \<open>n\<close>: a negative bound counts from the
  end, and the result is clipped to \<open>0..n\<close>.
\<close>

definition slice_index :: "nat \<Rightarrow> int \<Rightarrow> nat" where
  "slice_index n i = (if i < 0 then nat (max (i + int n) 0) else min (nat i) n)"

text \<open>\<^verbatim>\<open>xs[lo:hi]\<close>; \<open>None\<close> is an omitted bound.\<close>

definition py_slice :: "'a list \<Rightarrow> int option \<Rightarrow> int option \<Rightarrow> 'a list" where
  "py_slice xs lo hi =
     (let n = length xs;
          a = (case lo of None \<Rightarrow> 0 | Some i \<Rightarrow> slice_index n i);
          b = (case hi of None \<Rightarrow> n | Some i \<Rightarrow> slice_index n i)
      in take (b - a) (drop a xs))"

text \<open>\<^verbatim>\<open>LineScan.__getitem__\<close> with a slice as key: \<^verbatim>\<open>return LineScan(item)\<close>.\<close>

definition LineScan_getitem_slice ::
  "('a, 'img) linescan \<Rightarrow> int option \<Rightarrow> int option \<Rightarrow> ('a, 'img) linescan" where
  "LineScan_getitem_slice self lo hi = LineScan_init (py_slice (samples self) lo hi) no_kwargs"

text \<open>
  The keyword arguments \<^verbatim>\<open>image=self.image, point_loc=self.point_loc, pt1=self.pt1,
  pt2=self.pt2\<close> of most methods, and the variant of \<^verbatim>\<open>threshold\<close> and \<^verbatim>\<open>invert\<close> that
  spells the last one \<^verbatim>\<open>ptw\<close>.
\<close>

definition kw_of :: "('a, 'img) linescan \<Rightarrow> 'img kwargs" where
  "kw_of self = \<lparr>kw_image = Some (image_attr self), kw_point_loc = Some (point_loc self),
     kw_pt1 = Some (pt1 self), kw_pt2 = Some (pt2 self), kw_ptw = None, kw_channel = None\<rparr>"

definition kw_ptw_of :: "('a, 'img) linescan \<Rightarrow> 'img kwargs" where
  "kw_ptw_of self = \<lparr>kw_image = Some (image_attr self), kw_point_loc = Some (point_loc self),
     kw_pt1 = Some (pt1 self), kw_pt2 = None, kw_ptw = Some (pt2 self), kw_channel = None\<rparr>"

subsection \<open>Elementwise arithmetic\<close>

text \<open>
  A method returns a LineScan (\<open>Inr (Some s)\<close>), returns \<^verbatim>\<open>None\<close> (\<open>Inr None\<close>) or raises
  (\<open>Inl e\<close>). The message printed before \<^verbatim>\<open>return None\<close> goes to standard output and is
  not part of the result.
\<close>

definition LineScan_sub ::
  "('a::minus, 'img) linescan \<Rightarrow> ('a, 'img2) linescan \<Rightarrow> error + ('a, 'img) linescan option" where
  "LineScan_sub self other =
     (if length (samples self) = length (samples other)
      then Inr (Some (LineScan_update
             (LineScan_init (map2 (-) (samples self) (samples other)) no_kwargs) self))
      else Inr None)"

definition LineScan_add ::
  "('a::plus, 'img) linescan \<Rightarrow> ('a, 'img2) linescan \<Rightarrow> error + ('a, 'img) linescan option" where
  "LineScan_add self other =
     (if length (samples self) = length (samples other)
      then Inr (Some (LineScan_update
             (LineScan_init (map2 (+) (samples self) (samples other)) no_kwargs) self))
      else Inr None)"

definition LineScan_mul ::
  "('a::times, 'img) linescan \<Rightarrow> ('a, 'img2) linescan \<Rightarrow> error + ('a, 'img) linescan option" where
  "LineScan_mul self other =
     (if length (samples self) = length (samples other)
      then Inr (Some (LineScan_update
             (LineScan_init (map2 (*) (samples self) (samples other)) no_kwargs) self))
      else Inr None)"

text \<open>
  \<^verbatim>\<open>operator.div\<close>: floor division on Python ints (\<open>div\<close> on \<open>int\<close>) and division on
  floats (\<open>/\<close> on \<open>real\<close>), both the constant \<open>divide\<close>; a zero divisor raises.
\<close>

definition operator_div :: "'a::{zero,divide} \<Rightarrow> 'a \<Rightarrow> error + 'a" where
  "operator_div x y = (if y = 0 then Inl ZeroDivisionError else Inr (divide x y))"

text \<open>\<^verbatim>\<open>map(operator.div, self, other)\<close> on lists of one length; the first raise ends it.\<close>

fun map_div :: "'a::{zero,divide} list \<Rightarrow> 'a list \<Rightarrow> error + 'a list" where
  "map_div (x # xs) (y # ys) =
     (case operator_div x y of
        Inl e \<Rightarrow> Inl e
      | Inr q \<Rightarrow> (case map_div xs ys of Inl e \<Rightarrow> Inl e | Inr qs \<Rightarrow> Inr (q # qs)))"
| "map_div _ _ = Inr []"

text \<open>
  \<^verbatim>\<open>LineScan.__div__\<close>. The \<^verbatim>\<open>except ZeroDivisionError\<close> branch returns \<^verbatim>\<open>None\<close>. On
  success the method ends after \<^verbatim>\<open>ret_val._update(self)\<close> with no \<^verbatim>\<open>return\<close> statement, so
  Python returns \<^verbatim>\<open>None\<close> there as well.
\<close>

definition LineScan_div ::
  "('a::{zero,divide}, 'img) linescan \<Rightarrow> ('a, 'img2) linescan \<Rightarrow>
     error + ('a, 'img) linescan option" where
  "LineScan_div self other =
     (if length (samples self) = length (samples other)
      then (case map_div (samples self) (samples other) of
              Inl ZeroDivisionError \<Rightarrow> Inr None
            | Inl e \<Rightarrow> Inl e
            | Inr qs \<Rightarrow>
                (let ret_val = LineScan_update (LineScan_init qs no_kwargs) self
                 in Inr None))
      else Inr None)"


subsection \<open>Helpers from Python and numpy\<close>

text \<open>\<^verbatim>\<open>max\<close> and \<^verbatim>\<open>min\<close> of a sequence (also \<^verbatim>\<open>npy.max\<close>, \<^verbatim>\<open>npy.min\<close>): empty raises.\<close>

definition py_max :: "'a::linorder list \<Rightarrow> error + 'a" where
  "py_max xs = (case xs of [] \<Rightarrow> Inl ValueError | x # ys \<Rightarrow> Inr (foldl max x ys))"

definition py_min :: "'a::linorder list \<Rightarrow> error + 'a" where
  "py_min xs = (case xs of [] \<Rightarrow> Inl ValueError | x # ys \<Rightarrow> Inr (foldl min x ys))"

text \<open>The results of a loop body, in order; the first raise ends the loop.\<close>

fun collect :: "(error + 'a) list \<Rightarrow> error + 'a list" where
  "collect [] = Inr []"
| "collect (r # rs) =
     (case r of
        Inl e \<Rightarrow> Inl e
      | Inr x \<Rightarrow> (case collect rs of Inl e \<Rightarrow> Inl e | Inr xs \<Rightarrow> Inr (x # xs)))"

text \<open>
  A numpy float: where Python raises, numpy's division by zero gives an infinity or
  not-a-number (and a warning).
\<close>

datatype npfloat = Fin real | PInf | NInf | NaN

definition np_divide :: "real \<Rightarrow> real \<Rightarrow> npfloat" where
  "np_divide x y =
     (if y \<noteq> 0 then Fin (x / y) else if 0 < x then PInf else if x < 0 then NInf else NaN)"

definition np_times :: "npfloat \<Rightarrow> real \<Rightarrow> npfloat" where
  "np_times k x =
     (case k of
        Fin r \<Rightarrow> Fin (r * x)
      | PInf \<Rightarrow> (if 0 < x then PInf else if x < 0 then NInf else NaN)
      | NInf \<Rightarrow> (if 0 < x then NInf else if x < 0 then PInf else NaN)
      | NaN \<Rightarrow> NaN)"

definition np_plus :: "npfloat \<Rightarrow> real \<Rightarrow> npfloat" where
  "np_plus k a = (case k of Fin r \<Rightarrow> Fin (r + a) | PInf \<Rightarrow> PInf | NInf \<Rightarrow> NInf | NaN \<Rightarrow> NaN)"

text \<open>
  The product of two one-dimensional arrays: elementwise on equal lengths, an array of
  length one is broadcast, any other pair of lengths raises.
\<close>

definition np_mul :: "real list \<Rightarrow> real list \<Rightarrow> error + real list" where
  "np_mul xs ys =
     (if length xs = length ys then Inr (map2 (*) xs ys)
      else if length xs = 1 then Inr (map ((*) (hd xs)) ys)
      else if length ys = 1 then Inr (map (\<lambda>x. x * hd ys) xs)
      else Inl ValueError)"

subsection \<open>Gaussian smoothing\<close>

text \<open>
  The weights of \<^verbatim>\<open>smooth\<close>: for \<open>i\<close> in \<^verbatim>\<open>range(window)\<close> the value
  \<^verbatim>\<open>1 / npy.exp((4 * ((i - degree + 1) / float(window))) ** 2)\<close>, each then multiplied by
  the \<open>1.0\<close> of \<^verbatim>\<open>npy.array([1.0] * window)\<close>.
\<close>

definition weight_gauss :: "int \<Rightarrow> real list" where
  "weight_gauss degree =
     (let window = degree * 2 - 1
      in map (\<lambda>i. 1 / exp ((4 * (real_of_int (i - degree + 1) / real_of_int window)) ^ 2))
           [0..window - 1])"

definition smooth_weight :: "int \<Rightarrow> real list" where
  "smooth_weight degree =
     map2 (*) (weight_gauss degree) (replicate (nat (degree * 2 - 1)) 1)"

text \<open>
  \<^verbatim>\<open>sum(npy.array(self[i:i+window]) * weight) / sum(weight)\<close>. With no weights the product
  is empty or raises; the two sums of empty arrays are the Python int \<open>0\<close> and \<open>0 / 0\<close>
  raises. With weights, their sum is positive (each weight is).
\<close>

definition smooth_at :: "real list \<Rightarrow> int \<Rightarrow> real list \<Rightarrow> int \<Rightarrow> error + real" where
  "smooth_at xs window weight i =
     (case np_mul (py_slice xs (Some i) (Some (i + window))) weight of
        Inl e \<Rightarrow> Inl e
      | Inr ws \<Rightarrow>
          if weight = [] then Inl ZeroDivisionError
          else Inr (sum_list ws / sum_list weight))"

text \<open>
  \<^verbatim>\<open>LineScan.smooth\<close>. \<^verbatim>\<open>smoothed\<close> has \<^verbatim>\<open>len(self) - window\<close> entries (none when that
  is negative), and the result is \<^verbatim>\<open>self[0:degree - 1]\<close>, then \<^verbatim>\<open>smoothed\<close>, then
  \<^verbatim>\<open>self[-1 * degree:]\<close>.
\<close>

definition smooth :: "(real, 'img) linescan \<Rightarrow> int \<Rightarrow> error + (real, 'img) linescan" where
  "smooth self degree =
     (let xs = samples self;
          window = degree * 2 - 1;
          weight = smooth_weight degree
      in case collect (map (smooth_at xs window weight) [0..int (length xs) - window - 1]) of
           Inl e \<Rightarrow> Inl e
         | Inr smoothed \<Rightarrow>
             Inr (LineScan_update
               (LineScan_init
                  (py_slice xs (Some 0) (Some (degree - 1)) @ smoothed
                     @ py_slice xs (Some (- 1 * degree)) None)
                  (kw_of self))
               self))"

subsection \<open>Normalization and scaling\<close>

text \<open>\<^verbatim>\<open>LineScan.normalize\<close>: \<^verbatim>\<open>tmp /= npy.max(tmp)\<close>.\<close>

definition normalize_ls :: "(real, 'img) linescan \<Rightarrow> error + (npfloat, 'img) linescan" where
  "normalize_ls self =
     (case py_max (samples self) of
        Inl e \<Rightarrow> Inl e
      | Inr m \<Rightarrow>
          Inr (LineScan_update
            (LineScan_init (map (\<lambda>x. np_divide x m) (samples self)) (kw_of self)) self))"

text \<open>
  \<^verbatim>\<open>LineScan.scale\<close>: \<^verbatim>\<open>tmp = (((b - a) / (vmax - vmin)) * (tmp - vmin)) + a\<close> with
  \<open>a\<close>, \<open>b\<close> the smaller and the larger of the two values of \<^verbatim>\<open>val_range\<close>.
\<close>

definition scale_ls ::
  "(real, 'img) linescan \<Rightarrow> real \<times> real \<Rightarrow> error + (npfloat, 'img) linescan" where
  "scale_ls self val_range =
     (case py_max (samples self) of
        Inl e \<Rightarrow> Inl e
      | Inr vmax \<Rightarrow>
          (case py_min (samples self) of
             Inl e \<Rightarrow> Inl e
           | Inr vmin \<Rightarrow>
               (let a = min (fst val_range) (snd val_range);
                    b = max (fst val_range) (snd val_range)
                in Inr (LineScan_update
                     (LineScan_init
                        (map (\<lambda>x. np_plus (np_times (np_divide (b - a) (vmax - vmin)) (x - vmin)) a)
                           (samples self))
                        (kw_of self))
                     self))))"

subsection \<open>Sliding median\<close>

text \<open>
  \<^verbatim>\<open>npy.median\<close> of a list: the middle element of the sorted list, the mean of the two
  middle elements when the length is even, not-a-number when the list is empty.
\<close>

definition np_median :: "real list \<Rightarrow> npfloat" where
  "np_median xs =
     (let ys = sort xs; n = length ys
      in if n = 0 then NaN
         else if odd n then Fin (ys ! (n div 2))
         else Fin ((ys ! (n div 2 - 1) + ys ! (n div 2)) / 2))"

text \<open>
  \<^verbatim>\<open>LineScan.median\<close>. \<^verbatim>\<open>skip = int(npy.floor(size / 2))\<close>; the loop runs over
  \<^verbatim>\<open>range(skip, vsz - skip)\<close> and takes the median of \<^verbatim>\<open>self[i-skip:i+skip]\<close>.
\<close>

definition median :: "(real, 'img) linescan \<Rightarrow> int \<Rightarrow> (npfloat, 'img) linescan" where
  "median self size0 =
     (let xs = samples self;
          size1 = (if size0 mod 2 = 0 then size0 + 1 else size0);
          skip = size1 div 2;
          vsz = int (length xs);
          out = map Fin (py_slice xs (Some 0) (Some skip))
                @ map (\<lambda>i. np_median (py_slice xs (Some (i - skip)) (Some (i + skip))))
                    [skip..vsz - skip - 1]
                @ map Fin (py_slice xs (Some (- 1 * skip)) None)
      in LineScan_update (LineScan_init out (kw_of self)) self)"

subsection \<open>Convolution\<close>

text \<open>The full discrete convolution of two arrays.\<close>

definition conv_full :: "real list \<Rightarrow> real list \<Rightarrow> real list" where
  "conv_full a v =
     map (\<lambda>k. sum_list (map (\<lambda>j. if j \<le> k \<and> k - j < length v then a ! j * v ! (k - j) else 0)
                          [0..<length a]))
       [0..<length a + length v - 1]"

text \<open>
  \<^verbatim>\<open>npy.convolve(a, v, 'same')\<close>: an empty argument raises; the result is the middle of
  the full convolution, as long as the longer argument.
\<close>

definition np_convolve_same :: "real list \<Rightarrow> real list \<Rightarrow> error + real list" where
  "np_convolve_same a v =
     (if a = [] \<or> v = [] then Inl ValueError
      else Inr (take (max (length a) (length v))
                  (drop ((min (length a) (length v) - 1) div 2) (conv_full a v))))"

text \<open>
  \<^verbatim>\<open>LineScan.convolve\<close>: the constructor gets \<^verbatim>\<open>image\<close>, \<^verbatim>\<open>point_loc\<close>, \<^verbatim>\<open>pt1\<close>, \<^verbatim>\<open>pt2\<close>
  and \<^verbatim>\<open>channel\<close>, and \<^verbatim>\<open>_update\<close> is not called.
\<close>

definition convolve :: "(real, 'img) linescan \<Rightarrow> real list \<Rightarrow> error + (real, 'img) linescan" where
  "convolve self kern =
     (case np_convolve_same (samples self) kern of
        Inl e \<Rightarrow> Inl e
      | Inr out \<Rightarrow> Inr (LineScan_init out ((kw_of self)\<lparr>kw_channel := Some (channel self)\<rparr>)))"

subsection \<open>Threshold, invert, lookup table\<close>

text \<open>\<^verbatim>\<open>LineScan.threshold\<close>\<close>

definition threshold :: "('a::linorder, 'img) linescan \<Rightarrow> 'a \<Rightarrow> bool \<Rightarrow> (int, 'img) linescan" where
  "threshold self thr invert_flag =
     (let high = (if invert_flag then 0 else 255);
          low = (if invert_flag then 255 else 0);
          out = map (\<lambda>p. if p < thr then low else high) (samples self)
      in LineScan_update (LineScan_init out (kw_ptw_of self)) self)"

text \<open>\<^verbatim>\<open>LineScan.invert\<close>: the parameter \<^verbatim>\<open>max\<close> is not read, each sample is \<^verbatim>\<open>255 - p\<close>.\<close>

definition invert :: "('a::{minus,numeral}, 'img) linescan \<Rightarrow> 'a \<Rightarrow> ('a, 'img) linescan" where
  "invert self mx =
     (let out = map (\<lambda>p. 255 - p) (samples self)
      in LineScan_update (LineScan_init out (kw_ptw_of self)) self)"

text \<open>
  \<^verbatim>\<open>lut[p]\<close> on a Python list: an index from \<open>-len\<close> up to \<open>len - 1\<close> is valid, a negative
  one counts from the end; any other index raises \<^verbatim>\<open>IndexError\<close>.
\<close>

definition py_getitem :: "'b list \<Rightarrow> int \<Rightarrow> error + 'b" where
  "py_getitem xs i =
     (let n = int (length xs); j = (if i < 0 then i + n else i)
      in if 0 \<le> j \<and> j < n then Inr (xs ! nat j) else Inl IndexError)"

text \<open>\<^verbatim>\<open>LineScan.apply_lut\<close>\<close>

definition apply_lut :: "(int, 'img) linescan \<Rightarrow> 'b list \<Rightarrow> error + ('b, 'img) linescan" where
  "apply_lut self lut =
     (case collect (map (py_getitem lut) (samples self)) of
        Inl e \<Rightarrow> Inl e
      | Inr out \<Rightarrow> Inr (LineScan_update (LineScan_init out (kw_of self)) self))"


subsection \<open>Local extrema\<close>

text \<open>
  \<^verbatim>\<open>idx is True\<close> compares the identity of an array object with the object \<^verbatim>\<open>True\<close>:
  whatever the array holds, the answer is \<^verbatim>\<open>False\<close>.
\<close>

definition ndarray_is_True :: "bool list \<Rightarrow> bool" where
  "ndarray_is_True idx = False"

text \<open>\<^verbatim>\<open>npy.where(c)[0]\<close> for a single truth value \<open>c\<close>.\<close>

definition npy_where :: "bool \<Rightarrow> nat list" where
  "npy_where c = (if c then [0] else [])"

text \<open>\<^verbatim>\<open>arr[i]\<close> for an array \<open>i\<close> of indices.\<close>

definition np_take :: "'a list \<Rightarrow> nat list \<Rightarrow> error + 'a list" where
  "np_take xs ks =
     collect (map (\<lambda>k. if k < length xs then Inr (xs ! k) else Inl IndexError) ks)"

text \<open>
  \<^verbatim>\<open>LineScan.local_minima\<close>:
  \<^verbatim>\<open>idx = npy.r_[True, tmp[1:] < tmp[:-1]] & npy.r_[tmp[:-1] < tmp[1:], True]\<close>,
  \<^verbatim>\<open>i = npy.where(idx is True)[0]\<close>, and the result zips \<open>i\<close>, \<^verbatim>\<open>tmp[i]\<close> and the
  points at \<open>i\<close>.
\<close>

definition local_minima ::
  "('a::linorder, 'img) linescan \<Rightarrow> error + (nat \<times> 'a \<times> point) list" where
  "local_minima self =
     (let tmp = samples self;
          idx = map2 (\<and>) (True # map2 (<) (tl tmp) (butlast tmp))
                  (map2 (<) (butlast tmp) (tl tmp) @ [True]);
          i = npy_where (ndarray_is_True idx)
      in case np_take tmp i of
           Inl e \<Rightarrow> Inl e
         | Inr values \<Rightarrow>
             (case np_take (point_loc self) i of
                Inl e \<Rightarrow> Inl e
              | Inr pts \<Rightarrow> Inr (zip i (zip values pts))))"

text \<open>\<^verbatim>\<open>LineScan.local_maxmima\<close>: the same with \<^verbatim>\<open>>\<close>.\<close>

definition local_maxmima ::
  "('a::linorder, 'img) linescan \<Rightarrow> error + (nat \<times> 'a \<times> point) list" where
  "local_maxmima self =
     (let tmp = samples self;
          idx = map2 (\<and>) (True # map2 (>) (tl tmp) (butlast tmp))
                  (map2 (>) (butlast tmp) (tl tmp) @ [True]);
          i = npy_where (ndarray_is_True idx)
      in case np_take tmp i of
           Inl e \<Rightarrow> Inl e
         | Inr values \<Rightarrow>
             (case np_take (point_loc self) i of
                Inl e \<Rightarrow> Inl e
              | Inr pts \<Rightarrow> Inr (zip i (zip values pts))))"

subsection \<open>Windowed peaks and valleys\<close>

text \<open>
  The running extremum of both finders starts as \<^verbatim>\<open>-npy.Inf\<close> and is reset to it; the
  samples themselves are finite numbers.
\<close>

datatype 'a running = NegInf | Val 'a

text \<open>\<open>v > m\<close> and \<open>v < m\<close> for a finite \<open>v\<close> and a running extremum \<open>m\<close>.\<close>

definition gt_running :: "'a::linorder \<Rightarrow> 'a running \<Rightarrow> bool" where
  "gt_running v m = (case m of NegInf \<Rightarrow> True | Val x \<Rightarrow> x < v)"

definition lt_running :: "'a::linorder \<Rightarrow> 'a running \<Rightarrow> bool" where
  "lt_running v m = (case m of NegInf \<Rightarrow> False | Val x \<Rightarrow> v < x)"

text \<open>\<^verbatim>\<open>int(window / 2)\<close> under true division: the half, rounded towards zero.\<close>

definition half_width :: "int \<Rightarrow> int" where
  "half_width window = (if 0 \<le> window then window div 2 else - ((- window) div 2))"

text \<open>
  The loop of \<^verbatim>\<open>find_peaks\<close> over the indices still to visit. \<open>max_pos\<close> is \<open>None\<close> while
  the variable is unbound. \<^verbatim>\<open>max\<close> of an empty slice raises.
\<close>

fun find_peaks_loop ::
  "'a::{linorder,plus} list \<Rightarrow> int \<Rightarrow> 'a \<Rightarrow> nat list \<Rightarrow> 'a running \<Rightarrow> nat option \<Rightarrow>
     (nat \<times> 'a running) list \<Rightarrow> error + (nat \<times> 'a running) list" where
  "find_peaks_loop xs width delta [] maximum max_pos peaks = Inr peaks"
| "find_peaks_loop xs width delta (i # rest) maximum max_pos peaks =
     (let val = xs ! i;
          maximum1 = (if gt_running val maximum then Val val else maximum);
          max_pos1 = (if gt_running val maximum then Some i else max_pos)
      in case py_max (py_slice xs (Some (max 0 (int i - width))) (Some (int i + width))) of
           Inl e \<Rightarrow> Inl e
         | Inr m \<Rightarrow>
             if lt_running (m + delta) maximum1
             then (case max_pos1 of
                     None \<Rightarrow> Inl UnboundLocalError
                   | Some p \<Rightarrow>
                       find_peaks_loop xs width delta rest NegInf max_pos1
                         (peaks @ [(p, maximum1)]))
             else find_peaks_loop xs width delta rest maximum1 max_pos1 peaks)"

text \<open>\<^verbatim>\<open>LineScan.find_peaks\<close>\<close>

definition find_peaks ::
  "('a::{linorder,plus}, 'img) linescan \<Rightarrow> int \<Rightarrow> 'a \<Rightarrow> error + (nat \<times> 'a running) list" where
  "find_peaks self window delta =
     find_peaks_loop (samples self) (half_width window) delta
       [0..<length (samples self)] NegInf None []"

text \<open>The loop of \<^verbatim>\<open>find_valleys\<close>; \<^verbatim>\<open>min\<close> of an empty slice raises.\<close>

fun find_valleys_loop ::
  "'a::{linorder,minus} list \<Rightarrow> int \<Rightarrow> 'a \<Rightarrow> nat list \<Rightarrow> 'a running \<Rightarrow> nat option \<Rightarrow>
     (nat \<times> 'a running) list \<Rightarrow> error + (nat \<times> 'a running) list" where
  "find_valleys_loop xs width delta [] minimum min_pos valleys = Inr valleys"
| "find_valleys_loop xs width delta (i # rest) minimum min_pos valleys =
     (let val = xs ! i;
          minimum1 = (if lt_running val minimum then Val val else minimum);
          min_pos1 = (if lt_running val minimum then Some i else min_pos)
      in case py_min (py_slice xs (Some (max 0 (int i - width))) (Some (int i + width))) of
           Inl e \<Rightarrow> Inl e
         | Inr m \<Rightarrow>
             if lt_running (m - delta) minimum1
             then (case min_pos1 of
                     None \<Rightarrow> Inl UnboundLocalError
                   | Some p \<Rightarrow>
                       find_valleys_loop xs width delta rest NegInf min_pos1
                         (valleys @ [(p, minimum1)]))
             else find_valleys_loop xs width delta rest minimum1 min_pos1 valleys)"

text \<open>\<^verbatim>\<open>LineScan.find_valleys\<close>\<close>

definition find_valleys ::
  "('a::{linorder,minus}, 'img) linescan \<Rightarrow> int \<Rightarrow> 'a \<Rightarrow> error + (nat \<times> 'a running) list" where
  "find_valleys self window delta =
     find_valleys_loop (samples self) (half_width window) delta
       [0..<length (samples self)] NegInf None []"


subsection \<open>The specification's notions\<close>

text \<open>
  The metadata propagation contract, in the specification's words: source, the two
  endpoints, channel and coordinates of the result equal those of the input.
\<close>

definition same_metadata :: "('a, 'img) linescan \<Rightarrow> ('b, 'img) linescan \<Rightarrow> bool" where
  "same_metadata r s \<longleftrightarrow>
     image_attr r = image_attr s \<and> pt1 r = pt1 s \<and> pt2 r = pt2 s \<and>
     channel r = channel s \<and> point_loc r = point_loc s"

text \<open>
  Gaussian smoothing in the specification's words: the weight \<open>exp(-(4*i/window)^2)\<close>
  at offset \<open>i\<close> from the window's centre, and the weighted average of the
  neighbourhood of position \<open>j\<close>, offsets \<open>-(degree-1)\<close> to \<open>degree-1\<close>, normalised by the
  sum of the weights.
\<close>

definition spec_weight :: "int \<Rightarrow> int \<Rightarrow> real" where
  "spec_weight window i = exp (- ((4 * real_of_int i / real_of_int window) ^ 2))"

definition spec_weighted_average :: "real list \<Rightarrow> int \<Rightarrow> nat \<Rightarrow> real" where
  "spec_weighted_average xs degree j =
     sum_list (map (\<lambda>i. spec_weight (2 * degree - 1) i * xs ! nat (int j + i))
                 [- (degree - 1)..degree - 1])
     / sum_list (map (spec_weight (2 * degree - 1)) [- (degree - 1)..degree - 1])"

text \<open>Two scans with attributes that differ from the constructor's defaults.\<close>

definition demo_scan :: "(real, nat) linescan" where
  "demo_scan = \<lparr>samples = [1, 2, 3, 4], image_attr = Some 7, pt1 = Some (0, 0),
     pt2 = Some (3, 9), row = None, col = None, channel = 2,
     point_loc = [(0, 0), (1, 3), (2, 6), (3, 9)]\<rparr>"

definition demo_index_scan :: "(int, nat) linescan" where
  "demo_index_scan = \<lparr>samples = [0, 2, - 1], image_attr = Some 7, pt1 = Some (0, 0),
     pt2 = Some (2, 6), row = None, col = None, channel = 2,
     point_loc = [(0, 0), (1, 3), (2, 6)]\<rparr>"

text \<open>
  The value that \<open>smooth_at\<close> computes at position \<open>i\<close> when the window fits: the
  weighted sum of \<^verbatim>\<open>self[i:i+window]\<close> over the sum of the weights.
\<close>

definition smooth_val :: "real list \<Rightarrow> int \<Rightarrow> int \<Rightarrow> real" where
  "smooth_val xs degree i =
     sum_list (map2 (*) (take (nat (2 * degree - 1)) (drop (nat i) xs)) (weight_gauss degree))
       / sum_list (weight_gauss degree)"

section \<open>Properties\<close>

subsection \<open>Shared facts\<close>

lemma same_metadata_update: "same_metadata (LineScan_update r s) s"
  by (simp add: same_metadata_def LineScan_update_def)

lemma samples_update: "samples (LineScan_update r s) = samples r"
  by (simp add: LineScan_update_def)

lemma samples_init: "samples (LineScan_init xs kw) = xs"
  by (simp add: LineScan_init_def)

lemma point_loc_init: "point_loc (LineScan_init args kw) = identity_loc (length args)"
  by (simp add: LineScan_init_def set_kw_def instance_keys_def split: option.splits)

lemma collect_map_Inr:
  "(\<And>x. x \<in> set xs \<Longrightarrow> f x = Inr (g x)) \<Longrightarrow> collect (map f xs) = Inr (map g xs)"
  by (induction xs) auto

lemma collect_map_Inl:
  "\<exists>x\<in>set xs. isl (f x) \<Longrightarrow> (\<And>x e'. x \<in> set xs \<Longrightarrow> f x = Inl e' \<Longrightarrow> e' = e) \<Longrightarrow>
     collect (map f xs) = Inl e"
proof (induction xs)
  case Nil
  then show ?case by simp
next
  case (Cons a xs)
  show ?case
  proof (cases "f a")
    case (Inl e')
    with Cons.prems(2)[of a e'] show ?thesis by simp
  next
    case (Inr y)
    with Cons.prems(1) have ex: "\<exists>x\<in>set xs. isl (f x)" by auto
    have "collect (map f xs) = Inl e"
      using Cons.IH[OF ex] Cons.prems(2) by auto
    with Inr show ?thesis by simp
  qed
qed

subsection \<open>The constructor and the coordinates\<close>

text \<open>
  C9 (fails on the code). The claim: a Signal constructed with explicit coordinates
  stores them, and only without them gets the identity mapping. The constructor
  called with samples \<open>[1, 2]\<close> and \<^verbatim>\<open>point_loc=[(5, 5), (6, 6)]\<close> stores the identity mapping
  \<open>[(0, 0), (1, 1)]\<close>: the keyword is not a key of the instance dictionary and is dropped.
\<close>

theorem init_drops_point_loc:
  "point_loc (LineScan_init [1, 2 :: int] (no_kwargs\<lparr>kw_point_loc := Some [(5, 5), (6, 6)]\<rparr>)
      :: (int, unit) linescan) = [(0, 0), (1, 1)]"
  by (simp add: LineScan_init_def no_kwargs_def set_kw_def instance_keys_def identity_loc_def
      upt_rec)

subsection \<open>Elementwise arithmetic\<close>

text \<open>
  C2, counterexample. The claim: on operands of different lengths each of add, subtract,
  multiply and divide fails with a ShapeError and none returns a null-like result.
  Adding \<open>[2]\<close> to \<open>[4, 6]\<close> raises nothing and returns \<^verbatim>\<open>None\<close>.
\<close>

theorem mismatch_add_not_error:
  "LineScan_add (LineScan_init [4, 6 :: int] no_kwargs :: (int, unit) linescan)
     (LineScan_init [2] no_kwargs :: (int, unit) linescan) = Inr None"
  by (simp add: LineScan_add_def LineScan_init_def)

text \<open>
  C2, as amended: on operands of different lengths each of add, subtract, multiply and
  divide returns \<^verbatim>\<open>None\<close> and raises no error.
\<close>

theorem mismatch_returns_None:
  fixes a :: "('a::{plus,minus,times,zero,divide}, 'i) linescan" and b :: "('a, 'j) linescan"
  shows "length (samples a) \<noteq> length (samples b) \<Longrightarrow>
    LineScan_add a b = Inr None \<and> LineScan_sub a b = Inr None \<and>
    LineScan_mul a b = Inr None \<and> LineScan_div a b = Inr None"
  by (simp add: LineScan_add_def LineScan_sub_def LineScan_mul_def LineScan_div_def)

theorem mismatch_returns_None_witness:
  "LineScan_add demo_scan (demo_scan\<lparr>samples := [5]\<rparr>) = Inr None \<and>
   LineScan_sub demo_scan (demo_scan\<lparr>samples := [5]\<rparr>) = Inr None \<and>
   LineScan_mul demo_scan (demo_scan\<lparr>samples := [5]\<rparr>) = Inr None \<and>
   LineScan_div demo_scan (demo_scan\<lparr>samples := [5]\<rparr>) = Inr None"
proof -
  have h: "length (samples demo_scan) \<noteq> length (samples (demo_scan\<lparr>samples := [5]\<rparr>))"
    by (simp add: demo_scan_def)
  show ?thesis
    using mismatch_returns_None [OF h] by simp
qed

text \<open>
  C3 (fails on the code). The claim: on equal lengths and a divisor without zeros,
  divide returns a new Signal of the quotients with the left operand's metadata.
  Dividing \<open>[4, 6]\<close> by \<open>[2, 3]\<close> returns \<^verbatim>\<open>None\<close>: the method computes the quotients and
  ends without a \<^verbatim>\<open>return\<close>.
\<close>

theorem div_returns_None:
  "LineScan_div (LineScan_init [4, 6 :: int] no_kwargs :: (int, unit) linescan)
     (LineScan_init [2, 3] no_kwargs :: (int, unit) linescan) = Inr None"
  by (simp add: LineScan_div_def LineScan_init_def operator_div_def)

text \<open>The same on every input: no call of \<^verbatim>\<open>__div__\<close> returns a Signal.\<close>

lemma div_never_returns_signal: "LineScan_div a b \<noteq> Inr (Some r)"
  by (auto simp add: LineScan_div_def Let_def split: sum.splits error.splits)

subsection \<open>Sliding median\<close>

text \<open>
  C5 (fails on the code). The claim: every interior index holds the median of the
  window-size-wide neighbourhood centred at it, the ends pass through, the length is
  kept. On \<open>[1, 2, 9, 4, 5]\<close> with size \<open>3\<close> the interior indices hold \<open>3/2\<close>, \<open>11/2\<close>, \<open>13/2\<close>,
  the medians of the two samples \<^verbatim>\<open>self[i-1:i+1]\<close>, where the claim has \<open>2\<close>, \<open>4\<close>, \<open>5\<close>.
\<close>

theorem median_window_one_short:
  "samples (median (LineScan_init [1, 2, 9, 4, 5 :: real] no_kwargs :: (real, unit) linescan) 3)
     = [Fin 1, Fin (3 / 2), Fin (11 / 2), Fin (13 / 2), Fin 5]"
  by (simp add: median_def LineScan_init_def LineScan_update_def py_slice_def slice_index_def
      np_median_def upto.simps Let_def)

subsection \<open>Local extrema\<close>

text \<open>
  C6 (fails on the code). The claim: local-minimum (maximum) detection returns a tuple
  for every index whose sample is strictly below (above) its neighbours. On \<open>[3, 1, 3]\<close>
  the minima are empty although index \<open>1\<close> qualifies, and on \<open>[1, 3, 1]\<close> the maxima are
  empty: \<^verbatim>\<open>npy.where(idx is True)\<close> selects nothing.
\<close>

theorem local_extrema_empty:
  "local_minima (LineScan_init [3, 1, 3 :: int] no_kwargs :: (int, unit) linescan) = Inr [] \<and>
   local_maxmima (LineScan_init [1, 3, 1 :: int] no_kwargs :: (int, unit) linescan) = Inr []"
  by (simp add: local_minima_def local_maxmima_def ndarray_is_True_def npy_where_def
      np_take_def)

text \<open>The same on every input: both methods return the empty list.\<close>

lemma local_minima_always_empty: "local_minima self = Inr []"
  by (simp add: local_minima_def ndarray_is_True_def npy_where_def np_take_def)

lemma local_maxmima_always_empty: "local_maxmima self = Inr []"
  by (simp add: local_maxmima_def ndarray_is_True_def npy_where_def np_take_def)

subsection \<open>Windowed peaks and valleys\<close>

text \<open>
  C7, counterexample. The claim: on \<open>[1, 5, 1, 5, 1, 5, 1]\<close> with window \<open>2\<close> and delta \<open>1\<close>
  the peak finder returns the peaks \<open>(1, 5)\<close>, \<open>(3, 5)\<close>, \<open>(5, 5)\<close>. It does not.
\<close>

theorem find_peaks_scenario_not_three:
  "find_peaks (LineScan_init [1, 5, 1, 5, 1, 5, 1 :: int] no_kwargs :: (int, unit) linescan) 2 1
     \<noteq> Inr [(1, Val 5), (3, Val 5), (5, Val 5)]"
  by (simp add: find_peaks_def LineScan_init_def half_width_def upt_rec py_slice_def
      slice_index_def py_max_def gt_running_def lt_running_def)

text \<open>
  C7, as amended: on \<open>[1, 5, 1, 5, 1, 5, 1]\<close> with window \<open>2\<close> and delta \<open>1\<close> the peak
  finder returns no peak (every neighbourhood \<^verbatim>\<open>self[i-1:i+1]\<close> after the first holds a
  \<open>5\<close>, so the running maximum never exceeds its maximum).
\<close>

theorem find_peaks_scenario_empty:
  "find_peaks (LineScan_init [1, 5, 1, 5, 1, 5, 1 :: int] no_kwargs :: (int, unit) linescan) 2 1
     = Inr []"
  by (simp add: find_peaks_def LineScan_init_def half_width_def upt_rec py_slice_def
      slice_index_def py_max_def gt_running_def lt_running_def)

lemma slice_nonempty:
  assumes "i < length xs" "1 \<le> w"
  shows "py_slice xs (Some (max 0 (int i - w))) (Some (int i + w)) \<noteq> []"
  using assms by (auto simp add: py_slice_def slice_index_def Let_def min_def max_def)

lemma py_min_nonempty: "xs \<noteq> [] \<Longrightarrow> \<exists>m. py_min xs = Inr m"
  by (cases xs) (simp_all add: py_min_def)

lemma valleys_loop:
  "1 \<le> w \<Longrightarrow> \<forall>i\<in>set ks. i < length xs \<Longrightarrow>
     find_valleys_loop xs w delta ks NegInf pos valleys = Inr valleys"
proof (induction ks)
  case Nil
  then show ?case by simp
next
  case (Cons i ks)
  then have "i < length xs" by simp
  from py_min_nonempty[OF slice_nonempty[OF this Cons.prems(1)]]
  obtain m where m: "py_min (py_slice xs (Some (max 0 (int i - w))) (Some (int i + w))) = Inr m"
    by blast
  from Cons show ?case
    by (simp add: m lt_running_def)
qed

lemma half_width_ge: "2 \<le> window \<Longrightarrow> 1 \<le> half_width window"
  by (simp add: half_width_def)

text \<open>
  C10, counterexample. The claim: for every window and delta the valley finder returns
  the empty list. With window \<open>1\<close> the half-width is \<open>0\<close>, the neighbourhood \<^verbatim>\<open>self[0:0]\<close>
  is empty and \<^verbatim>\<open>min\<close> raises.
\<close>

theorem find_valleys_window_one_raises:
  "find_valleys (LineScan_init [1 :: int] no_kwargs :: (int, unit) linescan) 1 1
     = Inl ValueError"
  by (simp add: find_valleys_def LineScan_init_def half_width_def py_slice_def slice_index_def
      py_min_def)

text \<open>
  C10, as amended: for every Signal of finite samples, every delta and every window of
  at least \<open>2\<close>, the valley finder returns the empty list.
\<close>

theorem find_valleys_empty:
  "2 \<le> window \<Longrightarrow> find_valleys self window delta = Inr []"
  unfolding find_valleys_def
  by (rule valleys_loop) (simp_all add: half_width_ge)

theorem find_valleys_empty_witness:
  "find_valleys demo_scan 30 3 = Inr []"
proof -
  have h: "(2::int) \<le> 30" by simp
  show ?thesis
    using find_valleys_empty [OF h, of demo_scan 3] by simp
qed

subsection \<open>Lookup table\<close>

lemma py_getitem_ok:
  "- int (length lut) \<le> p \<Longrightarrow> p < int (length lut) \<Longrightarrow>
     py_getitem lut p = Inr (lut ! nat (if p < 0 then p + int (length lut) else p))"
  by (simp add: py_getitem_def Let_def)

lemma py_getitem_bad:
  "p < - int (length lut) \<or> int (length lut) \<le> p \<Longrightarrow> py_getitem lut p = Inl IndexError"
  by (auto simp add: py_getitem_def Let_def)

lemma py_getitem_err: "py_getitem lut p = Inl e \<Longrightarrow> e = IndexError"
  by (auto simp add: py_getitem_def Let_def split: if_splits)

text \<open>
  C8, counterexample. The claim: a sample outside \<open>[0, len(table))\<close>, a negative one
  included, makes LUT application fail with an IndexError. The sample \<open>-1\<close> on a table of
  three entries raises nothing and yields the table's last entry.
\<close>

theorem apply_lut_negative_sample:
  "map_sum id samples
     (apply_lut (LineScan_init [- 1 :: int] no_kwargs :: (int, unit) linescan) [10, 20, 30 :: int])
     = Inr [30]"
  by (simp add: apply_lut_def LineScan_init_def LineScan_update_def py_getitem_def)

text \<open>
  C8, as amended: LUT application fails with an IndexError whenever some sample lies
  outside \<open>[-len(table), len(table))\<close>; otherwise it returns a new Signal, with the input's
  metadata, whose i-th sample is \<open>table[samples[i]]\<close>, a negative sample counting from the
  table's end.
\<close>

theorem apply_lut_range:
  "((\<exists>p\<in>set (samples self). p < - int (length lut) \<or> int (length lut) \<le> p) \<longrightarrow>
      apply_lut self lut = Inl IndexError) \<and>
   ((\<forall>p\<in>set (samples self). - int (length lut) \<le> p \<and> p < int (length lut)) \<longrightarrow>
      (\<exists>r. apply_lut self lut = Inr r \<and> same_metadata r self \<and>
           samples r =
             map (\<lambda>p. lut ! nat (if p < 0 then p + int (length lut) else p)) (samples self)))"
proof (intro conjI impI)
  assume "\<exists>p\<in>set (samples self). p < - int (length lut) \<or> int (length lut) \<le> p"
  then have "\<exists>p\<in>set (samples self). isl (py_getitem lut p)"
    using py_getitem_bad[of _ lut] by (metis sum.disc(1))
  then have "collect (map (py_getitem lut) (samples self)) = Inl IndexError"
    by (rule collect_map_Inl) (rule py_getitem_err)
  then show "apply_lut self lut = Inl IndexError"
    by (simp add: apply_lut_def)
next
  assume ok: "\<forall>p\<in>set (samples self). - int (length lut) \<le> p \<and> p < int (length lut)"
  have "collect (map (py_getitem lut) (samples self)) =
      Inr (map (\<lambda>p. lut ! nat (if p < 0 then p + int (length lut) else p)) (samples self))"
    by (rule collect_map_Inr) (use ok in \<open>simp add: py_getitem_ok\<close>)
  then show "\<exists>r. apply_lut self lut = Inr r \<and> same_metadata r self \<and>
      samples r = map (\<lambda>p. lut ! nat (if p < 0 then p + int (length lut) else p)) (samples self)"
    by (simp add: apply_lut_def same_metadata_update samples_update samples_init)
qed


theorem apply_lut_range_witness:
  "apply_lut (demo_index_scan\<lparr>samples := [0, 3]\<rparr>) [10, 20, 30 :: int] = Inl IndexError \<and>
   map_sum id samples (apply_lut demo_index_scan [10, 20, 30 :: int]) = Inr [10, 30, 30] \<and>
   map_sum id point_loc (apply_lut demo_index_scan [10, 20, 30 :: int])
     = Inr [(0, 0), (1, 3), (2, 6)]"
proof -
  have bad: "\<exists>p\<in>set (samples (demo_index_scan\<lparr>samples := [0, 3]\<rparr>)).
      p < - int (length [10, 20, 30 :: int]) \<or> int (length [10, 20, 30 :: int]) \<le> p"
    by simp
  have ok: "\<forall>p\<in>set (samples demo_index_scan).
      - int (length [10, 20, 30 :: int]) \<le> p \<and> p < int (length [10, 20, 30 :: int])"
    by (simp add: demo_index_scan_def)
  from apply_lut_range [of "demo_index_scan\<lparr>samples := [0, 3]\<rparr>" "[10, 20, 30]"] bad
  have 1: "apply_lut (demo_index_scan\<lparr>samples := [0, 3]\<rparr>) [10, 20, 30 :: int] = Inl IndexError"
    by blast
  from apply_lut_range [of demo_index_scan "[10, 20, 30]"] ok
  obtain r where r: "apply_lut demo_index_scan [10, 20, 30 :: int] = Inr r"
    "same_metadata r demo_index_scan"
    "samples r = map (\<lambda>p. [10, 20, 30] ! nat (if p < 0 then p + int (length [10, 20, 30 :: int]) else p))
       (samples demo_index_scan)"
    by blast
  from r(3) have 2: "samples r = [10, 30, 30]"
    by (simp add: demo_index_scan_def)
  from r(2) have 3: "point_loc r = [(0, 0), (1, 3), (2, 6)]"
    by (simp add: same_metadata_def demo_index_scan_def)
  from 1 2 3 r(1) show ?thesis by simp
qed


subsection \<open>Gaussian smoothing\<close>

lemma upto_as_map: "[a..b] = map (\<lambda>k. a + int k) [0..<nat (b - a + 1)]"
  by (rule nth_equalityI) (simp_all add: nth_upto)

lemma map2_as_map:
  "length xs = n \<Longrightarrow> length ys = n \<Longrightarrow> map2 f xs ys = map (\<lambda>k. f (xs ! k) (ys ! k)) [0..<n]"
  by (rule nth_equalityI) simp_all

lemma length_weight_gauss: "length (weight_gauss degree) = nat (2 * degree - 1)"
  by (simp add: weight_gauss_def Let_def mult.commute)

lemma smooth_weight_eq: "smooth_weight degree = weight_gauss degree"
  unfolding smooth_weight_def
  by (rule nth_equalityI) (simp_all add: length_weight_gauss mult.commute)

lemma weight_gauss_spec:
  "weight_gauss degree =
     map (\<lambda>k. spec_weight (2 * degree - 1) (int k - (degree - 1))) [0..<nat (2 * degree - 1)]"
proof -
  have "1 / exp ((4 * (real_of_int (int k - degree + 1) / real_of_int (degree * 2 - 1)))\<^sup>2)
      = spec_weight (2 * degree - 1) (int k - (degree - 1))" for k
    by (simp add: spec_weight_def exp_minus inverse_eq_divide mult.commute algebra_simps)
  then show ?thesis
    by (simp add: weight_gauss_def Let_def upto_as_map [of 0] o_def mult.commute)
qed


lemma spec_offsets:
  "[- (degree - 1)..degree - 1] = map (\<lambda>k. int k - (degree - 1)) [0..<nat (2 * degree - 1)]"
  by (rule nth_equalityI) (simp_all add: nth_upto)

lemma weight_gauss_nonempty: "1 \<le> degree \<Longrightarrow> weight_gauss degree \<noteq> []"
  using length_weight_gauss [of degree] by auto

lemma slice_window:
  assumes "0 \<le> i" "0 \<le> w" "i + w \<le> int (length xs)"
  shows "py_slice xs (Some i) (Some (i + w)) = take (nat w) (drop (nat i) xs)"
proof -
  have "min (nat (i + w)) (length xs) - min (nat i) (length xs) = nat w"
    using assms by (simp add: min_def nat_add_distrib) linarith
  with assms show ?thesis
    by (simp add: py_slice_def slice_index_def Let_def)
qed

lemma slice_front:
  assumes "0 \<le> k" 
  shows "py_slice xs (Some 0) (Some k) = take (nat k) xs"
  using assms by (simp add: py_slice_def slice_index_def Let_def min_def)

lemma slice_back:
  assumes "1 \<le> k" 
  shows "py_slice xs (Some (- k)) None = drop (length xs - nat k) xs"
proof -
  have "nat (max (int (length xs) - k) 0) = length xs - nat k"
    using assms by (simp add: max_def) linarith
  with assms show ?thesis
    by (simp add: py_slice_def slice_index_def Let_def)
qed

lemma smooth_at_val:
  assumes "1 \<le> degree" "0 \<le> i" "i + (2 * degree - 1) \<le> int (length xs)"
  shows "smooth_at xs (2 * degree - 1) (weight_gauss degree) i = Inr (smooth_val xs degree i)"
proof -
  have w: "0 \<le> 2 * degree - 1" using assms(1) by simp
  have len: "length (take (nat (2 * degree - 1)) (drop (nat i) xs)) = length (weight_gauss degree)"
    using assms by (simp add: length_weight_gauss)
  show ?thesis
    unfolding smooth_at_def slice_window [OF assms(2) w assms(3)]
    using len weight_gauss_nonempty [OF assms(1)]
    by (simp add: np_mul_def smooth_val_def)
qed

lemma smooth_result:
  assumes "1 \<le> degree" "2 * degree - 1 \<le> int (length (samples self))"
  shows "smooth self degree =
     Inr (LineScan_update
       (LineScan_init
          (take (nat (degree - 1)) (samples self)
             @ map (smooth_val (samples self) degree)
                 [0..int (length (samples self)) - (2 * degree - 1) - 1]
             @ drop (length (samples self) - nat degree) (samples self))
          (kw_of self))
       self)"
proof -
  have coll: "collect (map (smooth_at (samples self) (2 * degree - 1) (weight_gauss degree))
            [0..int (length (samples self)) - (2 * degree - 1) - 1])
      = Inr (map (smooth_val (samples self) degree)
            [0..int (length (samples self)) - (2 * degree - 1) - 1])"
    by (rule collect_map_Inr) (use assms in \<open>simp add: smooth_at_val\<close>)
  have c: "degree * 2 - 1 = 2 * degree - 1" by simp
  show ?thesis
    unfolding smooth_def Let_def c smooth_weight_eq coll
    using assms by (simp add: slice_front slice_back)
qed


lemma smooth_val_spec:
  assumes "1 \<le> degree" "int j' + (2 * degree - 1) \<le> int (length xs)"
  shows "smooth_val xs degree (int j') = spec_weighted_average xs degree (j' + nat (degree - 1))"
proof -
  let ?W = "nat (2 * degree - 1)"
  have len: "length (take ?W (drop j' xs)) = ?W"
    using assms by simp
  have num: "map2 (*) (take ?W (drop j' xs)) (weight_gauss degree)
      = map (\<lambda>i. spec_weight (2 * degree - 1) i * xs ! nat (int (j' + nat (degree - 1)) + i))
          [- (degree - 1)..degree - 1]"
    unfolding spec_offsets map2_as_map [OF len length_weight_gauss]
  proof (rule nth_equalityI)
    show "length (map (\<lambda>k. take ?W (drop j' xs) ! k * weight_gauss degree ! k) [0..<?W]) =
      length (map (\<lambda>i. spec_weight (2 * degree - 1) i * xs ! nat (int (j' + nat (degree - 1)) + i))
         (map (\<lambda>k. int k - (degree - 1)) [0..<?W]))"
      by simp
  next
    fix k
    assume "k < length (map (\<lambda>k. take ?W (drop j' xs) ! k * weight_gauss degree ! k) [0..<?W])"
    then have k: "k < ?W" by simp
    have idx: "nat (int (j' + nat (degree - 1)) + (int k - (degree - 1))) = j' + k"
      using assms(1) by simp
    have "j' + k < length xs" using k assms by linarith
    then have "take ?W (drop j' xs) ! k = xs ! (j' + k)"
      using k by simp
    then show "map (\<lambda>k. take ?W (drop j' xs) ! k * weight_gauss degree ! k) [0..<?W] ! k =
      map (\<lambda>i. spec_weight (2 * degree - 1) i * xs ! nat (int (j' + nat (degree - 1)) + i))
         (map (\<lambda>k. int k - (degree - 1)) [0..<?W]) ! k"
      using k by (simp add: idx weight_gauss_spec del: of_nat_add)
  qed
  have den: "weight_gauss degree = map (spec_weight (2 * degree - 1)) [- (degree - 1)..degree - 1]"
    unfolding spec_offsets by (simp add: weight_gauss_spec o_def)
  show ?thesis
    unfolding smooth_val_def spec_weighted_average_def nat_int num den [symmetric]
    by (rule refl)
qed


text \<open>
  C4. For every Signal and every degree of at least \<open>1\<close> with \<open>2 * degree - 1\<close> at most the
  length, Gaussian smoothing returns a Signal of the input's length; its first
  \<open>degree - 1\<close> and its last \<open>degree\<close> samples are the input's, and every other position
  holds the weighted average of its \<open>(2 * degree - 1)\<close>-wide neighbourhood with the weights
  \<open>exp(-(4*i/window)^2)\<close>, normalised by their sum.
\<close>

theorem smooth_spec:
  assumes "1 \<le> degree" and "2 * degree - 1 \<le> int (length (samples self))"
  shows "\<exists>r. smooth self degree = Inr r \<and>
     length (samples r) = length (samples self) \<and>
     (\<forall>j. j < nat (degree - 1) \<longrightarrow> samples r ! j = samples self ! j) \<and>
     (\<forall>j. length (samples self) - nat degree \<le> j \<and> j < length (samples self) \<longrightarrow>
          samples r ! j = samples self ! j) \<and>
     (\<forall>j. nat (degree - 1) \<le> j \<and> j < length (samples self) - nat degree \<longrightarrow>
          samples r ! j = spec_weighted_average (samples self) degree j)"
proof -
  let ?xs = "samples self"
  let ?n = "length ?xs"
  let ?front = "take (nat (degree - 1)) ?xs"
  let ?mid = "map (smooth_val ?xs degree) [0..int ?n - (2 * degree - 1) - 1]"
  let ?rear = "drop (?n - nat degree) ?xs"
  let ?out = "?front @ ?mid @ ?rear"
  have lf: "length ?front = nat (degree - 1)" using assms by simp
  have lm: "length ?mid = ?n + 1 - 2 * nat degree" using assms by simp
  have lb: "length ?rear = nat degree" using assms by simp
  have len: "length ?out = ?n"
    unfolding length_append lf lm lb using assms by linarith
  have front_part: "?out ! j = ?xs ! j" if "j < nat (degree - 1)" for j
    using that lf by (simp add: nth_append)
  have tail_part: "?out ! j = ?xs ! j" if "?n - nat degree \<le> j" "j < ?n" for j
  proof -
    have "length (?front @ ?mid) = ?n - nat degree"
      unfolding length_append lf lm using assms by linarith
    then have "?out ! j = ?rear ! (j - (?n - nat degree))"
      using that by (metis append.assoc nth_append not_less)
    also have "\<dots> = ?xs ! j" using that by simp
    finally show ?thesis .
  qed
  have mid_part: "?out ! j = spec_weighted_average ?xs degree j"
    if "nat (degree - 1) \<le> j" "j < ?n - nat degree" for j
  proof -
    define j' where "j' = j - nat (degree - 1)"
    have j: "j = j' + nat (degree - 1)" using that by (simp add: j'_def)
    have j'lt: "j' < length ?mid" unfolding lm j'_def using that assms by linarith
    have bound: "int j' + (2 * degree - 1) \<le> int ?n"
      unfolding j'_def using that assms by linarith
    have "?out ! j = (?mid @ ?rear) ! j'"
      using that lf by (simp add: nth_append j'_def)
    also have "\<dots> = ?mid ! j'" using j'lt by (simp add: nth_append)
    also have "\<dots> = smooth_val ?xs degree (int j')"
      using j'lt bound by (simp add: nth_upto)
    also have "\<dots> = spec_weighted_average ?xs degree j"
      unfolding j by (rule smooth_val_spec [OF assms(1) bound])
    finally show ?thesis .
  qed
  show ?thesis
    unfolding smooth_result [OF assms]
    using len front_part tail_part mid_part by (simp add: samples_update samples_init)
qed


theorem smooth_spec_witness:
  "smooth demo_scan 2 = Inr (projr (smooth demo_scan 2)) \<and>
   length (samples (projr (smooth demo_scan 2))) = 4 \<and>
   samples (projr (smooth demo_scan 2)) ! 0 = 1 \<and>
   samples (projr (smooth demo_scan 2)) ! 1 = spec_weighted_average [1, 2, 3, 4] 2 1 \<and>
   samples (projr (smooth demo_scan 2)) ! 2 = 3 \<and>
   samples (projr (smooth demo_scan 2)) ! 3 = 4"
proof -
  have h1: "(1::int) \<le> 2" by simp
  have h2: "2 * 2 - 1 \<le> int (length (samples demo_scan))" by (simp add: demo_scan_def)
  from smooth_spec [OF h1 h2]
  obtain r where r: "smooth demo_scan 2 = Inr r"
    and len: "length (samples r) = length (samples demo_scan)"
    and front_part: "\<forall>j. j < nat (2 - 1) \<longrightarrow> samples r ! j = samples demo_scan ! j"
    and tail_part: "\<forall>j. length (samples demo_scan) - nat 2 \<le> j \<and> j < length (samples demo_scan) \<longrightarrow>
          samples r ! j = samples demo_scan ! j"
    and mid_part: "\<forall>j. nat (2 - 1) \<le> j \<and> j < length (samples demo_scan) - nat 2 \<longrightarrow>
          samples r ! j = spec_weighted_average (samples demo_scan) 2 j"
    by blast
  have s: "samples demo_scan = [1, 2, 3, 4]" by (simp add: demo_scan_def)
  from front_part have 0: "samples r ! 0 = 1" by (simp add: s)
  from mid_part have 1: "samples r ! 1 = spec_weighted_average [1, 2, 3, 4] 2 1" by (simp add: s)
  from tail_part have "samples r ! 2 = samples demo_scan ! 2" by (simp add: s)
  then have 2: "samples r ! 2 = 3" by (simp add: s)
  from tail_part have "samples r ! 3 = samples demo_scan ! 3" by (simp add: s)
  then have 3: "samples r ! 3 = 4" by (simp add: s)
  from r len 0 1 2 3 show ?thesis by (simp add: s)
qed

subsection \<open>Metadata propagation\<close>

lemma add_meta: "LineScan_add s t = Inr (Some r) \<Longrightarrow> same_metadata r s"
  by (auto simp add: LineScan_add_def same_metadata_update split: if_splits)
lemma sub_meta: "LineScan_sub s t = Inr (Some r) \<Longrightarrow> same_metadata r s"
  by (auto simp add: LineScan_sub_def same_metadata_update split: if_splits)
lemma mul_meta: "LineScan_mul s t = Inr (Some r) \<Longrightarrow> same_metadata r s"
  by (auto simp add: LineScan_mul_def same_metadata_update split: if_splits)
lemma smooth_meta: "smooth s d = Inr r \<Longrightarrow> same_metadata r s"
  by (auto simp add: smooth_def Let_def same_metadata_update split: sum.splits)
lemma normalize_meta: "normalize_ls s = Inr r \<Longrightarrow> same_metadata r s"
  by (auto simp add: normalize_ls_def same_metadata_update split: sum.splits)
lemma scale_meta: "scale_ls s vr = Inr r \<Longrightarrow> same_metadata r s"
  by (auto simp add: scale_ls_def Let_def same_metadata_update split: sum.splits)
lemma median_meta: "same_metadata (median s sz) s"
  by (simp add: median_def Let_def same_metadata_update)
lemma threshold_meta: "same_metadata (threshold s thr flag) s"
  by (simp add: threshold_def Let_def same_metadata_update)
lemma invert_meta: "same_metadata (invert s mx) s"
  by (simp add: invert_def Let_def same_metadata_update)
lemma apply_lut_meta: "apply_lut s lut = Inr r \<Longrightarrow> same_metadata r s"
  by (auto simp add: apply_lut_def same_metadata_update split: sum.splits)
lemma convolve_meta: "convolve s k = Inr r \<Longrightarrow>
   image_attr r = image_attr s \<and> pt1 r = pt1 s \<and> pt2 r = pt2 s \<and> channel r = channel s"
  by (auto simp add: convolve_def LineScan_init_def kw_of_def set_kw_def instance_keys_def split: sum.splits)
lemma slice_meta: "image_attr (LineScan_getitem_slice s lo hi) = None \<and>
   pt1 (LineScan_getitem_slice s lo hi) = None \<and> pt2 (LineScan_getitem_slice s lo hi) = None \<and>
   channel (LineScan_getitem_slice s lo hi) = - 1 \<and>
   point_loc (LineScan_getitem_slice s lo hi) = identity_loc (length (samples (LineScan_getitem_slice s lo hi)))"
  by (simp add: LineScan_getitem_slice_def LineScan_init_def no_kwargs_def set_kw_def)

text \<open>
  C1, counterexample. The claim: every operation that returns a new Signal, and every
  contiguous slice, produces a Signal with the input's source, endpoints, channel and
  coordinates. The slice \<^verbatim>\<open>[0:2]\<close> of a scan with an image, endpoints, channel \<open>2\<close> and its
  own coordinates has none of them.
\<close>

theorem slice_drops_metadata:
  "\<not> same_metadata
     (LineScan_getitem_slice
        \<lparr>samples = [1, 2, 3 :: int], image_attr = Some (7 :: nat), pt1 = Some (0, 0),
         pt2 = Some (2, 6), row = None, col = None, channel = 2,
         point_loc = [(0, 0), (1, 3), (2, 6)]\<rparr> (Some 0) (Some 2))
     \<lparr>samples = [1, 2, 3 :: int], image_attr = Some (7 :: nat), pt1 = Some (0, 0),
      pt2 = Some (2, 6), row = None, col = None, channel = 2,
      point_loc = [(0, 0), (1, 3), (2, 6)]\<rparr>"
  by (simp add: same_metadata_def LineScan_getitem_slice_def LineScan_init_def no_kwargs_def set_kw_def)

text \<open>
  C1, as amended. Add, subtract and multiply (when they return a Signal), smoothing,
  normalization, scaling, sliding median, threshold, invert and LUT application (when
  they return) produce a Signal whose source, endpoints, channel and coordinates are the
  input's. Convolution produces one with the input's source, endpoints and channel.
  A contiguous slice is a new Signal with the constructor's defaults: no source, no
  endpoints, channel \<open>-1\<close> and the identity coordinates of its own length.
\<close>

theorem metadata_propagation:
  fixes s :: "('a::{plus,minus,times,linorder,numeral}, 'img) linescan"
    and t :: "('a, 'img2) linescan"
    and u :: "(real, 'img) linescan"
    and v :: "(int, 'img) linescan"
    and lut :: "'b list"
  shows
    "(LineScan_add s t = Inr (Some r_add) \<longrightarrow> same_metadata r_add s) \<and>
     (LineScan_sub s t = Inr (Some r_sub) \<longrightarrow> same_metadata r_sub s) \<and>
     (LineScan_mul s t = Inr (Some r_mul) \<longrightarrow> same_metadata r_mul s) \<and>
     (smooth u degree = Inr r_smooth \<longrightarrow> same_metadata r_smooth u) \<and>
     (normalize_ls u = Inr r_norm \<longrightarrow> same_metadata r_norm u) \<and>
     (scale_ls u val_range = Inr r_scale \<longrightarrow> same_metadata r_scale u) \<and>
     same_metadata (median u size0) u \<and>
     same_metadata (threshold s thr flag) s \<and>
     same_metadata (invert s mx) s \<and>
     (apply_lut v lut = Inr r_lut \<longrightarrow> same_metadata r_lut v) \<and>
     (convolve u kern = Inr r_conv \<longrightarrow>
        image_attr r_conv = image_attr u \<and> pt1 r_conv = pt1 u \<and> pt2 r_conv = pt2 u \<and>
        channel r_conv = channel u) \<and>
     image_attr (LineScan_getitem_slice s lo hi) = None \<and>
     pt1 (LineScan_getitem_slice s lo hi) = None \<and>
     pt2 (LineScan_getitem_slice s lo hi) = None \<and>
     channel (LineScan_getitem_slice s lo hi) = - 1 \<and>
     point_loc (LineScan_getitem_slice s lo hi)
       = identity_loc (length (samples (LineScan_getitem_slice s lo hi)))"
  using add_meta [of s t r_add] sub_meta [of s t r_sub] mul_meta [of s t r_mul]
    smooth_meta [of u degree r_smooth] normalize_meta [of u r_norm]
    scale_meta [of u val_range r_scale] median_meta [of u size0]
    threshold_meta [of s thr flag] invert_meta [of s mx] apply_lut_meta [of v lut r_lut]
    convolve_meta [of u kern r_conv] slice_meta [of s lo hi]
  by blast


theorem metadata_propagation_witness:
  "LineScan_add demo_scan demo_scan = Inr (Some (demo_scan\<lparr>samples := [2, 4, 6, 8]\<rparr>)) \<and>
   same_metadata (demo_scan\<lparr>samples := [2, 4, 6, 8]\<rparr>) demo_scan \<and>
   LineScan_sub demo_scan demo_scan = Inr (Some (demo_scan\<lparr>samples := [0, 0, 0, 0]\<rparr>)) \<and>
   same_metadata (demo_scan\<lparr>samples := [0, 0, 0, 0]\<rparr>) demo_scan \<and>
   LineScan_mul demo_scan demo_scan = Inr (Some (demo_scan\<lparr>samples := [1, 4, 9, 16]\<rparr>)) \<and>
   same_metadata (demo_scan\<lparr>samples := [1, 4, 9, 16]\<rparr>) demo_scan \<and>
   smooth demo_scan 2 = Inr (projr (smooth demo_scan 2)) \<and>
   same_metadata (projr (smooth demo_scan 2)) demo_scan \<and>
   normalize_ls demo_scan = Inr (projr (normalize_ls demo_scan)) \<and>
   same_metadata (projr (normalize_ls demo_scan)) demo_scan \<and>
   scale_ls demo_scan (0, 1) = Inr (projr (scale_ls demo_scan (0, 1))) \<and>
   same_metadata (projr (scale_ls demo_scan (0, 1))) demo_scan \<and>
   same_metadata (median demo_scan 3) demo_scan \<and>
   same_metadata (threshold demo_scan 2 False) demo_scan \<and>
   same_metadata (invert demo_scan 255) demo_scan \<and>
   apply_lut demo_index_scan [10, 20, 30 :: int]
     = Inr (projr (apply_lut demo_index_scan [10, 20, 30 :: int])) \<and>
   same_metadata (projr (apply_lut demo_index_scan [10, 20, 30 :: int])) demo_index_scan \<and>
   convolve demo_scan [0, 1, 1 / 2] = Inr (projr (convolve demo_scan [0, 1, 1 / 2])) \<and>
   image_attr (projr (convolve demo_scan [0, 1, 1 / 2])) = Some 7 \<and>
   channel (projr (convolve demo_scan [0, 1, 1 / 2])) = 2 \<and>
   image_attr (LineScan_getitem_slice demo_scan (Some 0) (Some 2)) = None \<and>
   channel (LineScan_getitem_slice demo_scan (Some 0) (Some 2)) = - 1"
proof -
  have h_add: "LineScan_add demo_scan demo_scan = Inr (Some (demo_scan\<lparr>samples := [2, 4, 6, 8]\<rparr>))"
    by (simp add: LineScan_add_def LineScan_update_def LineScan_init_def demo_scan_def)
  have h_sub: "LineScan_sub demo_scan demo_scan = Inr (Some (demo_scan\<lparr>samples := [0, 0, 0, 0]\<rparr>))"
    by (simp add: LineScan_sub_def LineScan_update_def LineScan_init_def demo_scan_def)
  have h_mul: "LineScan_mul demo_scan demo_scan = Inr (Some (demo_scan\<lparr>samples := [1, 4, 9, 16]\<rparr>))"
    by (simp add: LineScan_mul_def LineScan_update_def LineScan_init_def demo_scan_def)
  have "(1::int) \<le> 2" and "2 * 2 - 1 \<le> int (length (samples demo_scan))"
    by (simp_all add: demo_scan_def)
  then have h_smooth: "smooth demo_scan 2 = Inr (projr (smooth demo_scan 2))"
    by (simp add: smooth_result)
  have h_norm: "normalize_ls demo_scan = Inr (projr (normalize_ls demo_scan))"
    by (simp add: normalize_ls_def demo_scan_def py_max_def)
  have h_scale: "scale_ls demo_scan (0, 1) = Inr (projr (scale_ls demo_scan (0, 1)))"
    by (simp add: scale_ls_def demo_scan_def py_max_def py_min_def)
  have h_lut: "apply_lut demo_index_scan [10, 20, 30 :: int]
      = Inr (projr (apply_lut demo_index_scan [10, 20, 30 :: int]))"
    by (simp add: apply_lut_def demo_index_scan_def py_getitem_def)
  have h_conv: "convolve demo_scan [0, 1, 1 / 2] = Inr (projr (convolve demo_scan [0, 1, 1 / 2]))"
    by (simp add: convolve_def np_convolve_same_def demo_scan_def)
  have m: "image_attr demo_scan = Some 7" "channel demo_scan = 2"
    by (simp_all add: demo_scan_def)
  from metadata_propagation [where s = demo_scan and t = demo_scan and u = demo_scan
      and v = demo_index_scan and lut = "[10, 20, 30 :: int]" and degree = 2
      and val_range = "(0, 1)" and ?size0.0 = 3 and thr = 2 and flag = False and mx = 255
      and kern = "[0, 1, 1 / 2]" and lo = "Some 0" and hi = "Some 2"
      and r_add = "demo_scan\<lparr>samples := [2, 4, 6, 8]\<rparr>"
      and r_sub = "demo_scan\<lparr>samples := [0, 0, 0, 0]\<rparr>"
      and r_mul = "demo_scan\<lparr>samples := [1, 4, 9, 16]\<rparr>"
      and r_smooth = "projr (smooth demo_scan 2)"
      and r_norm = "projr (normalize_ls demo_scan)"
      and r_scale = "projr (scale_ls demo_scan (0, 1))"
      and r_lut = "projr (apply_lut demo_index_scan [10, 20, 30 :: int])"
      and r_conv = "projr (convolve demo_scan [0, 1, 1 / 2])"]
    h_add h_sub h_mul h_smooth h_norm h_scale h_lut h_conv m
  show ?thesis by simp
qed

end
